theory Spec2Isabelle
  imports Main "HOL-Library.Word"
begin

unbundle bit_operations_syntax

section \<open>Python values, strings and exceptions\<close>

text \<open>
  The scripts handle the values that decoding a JSON document produces in Python:
  \<open>None\<close>, booleans, integers, floats, strings, lists and dictionaries with string
  keys. A float is kept as its IEEE-754 binary64 bit pattern, which is all that its
  truth value needs. A dictionary is an association list in insertion order; a key is
  looked up with \<open>map_of\<close>.

  A Python \<open>str\<close> is modelled by the bytes of its UTF-8 encoding, so an accented letter
  of the source is two characters here. The encoding is injective, so equality of the
  modelled strings is equality of the Python strings.
\<close>

datatype pyval =
    PNone
  | PBool bool
  | PInt int
  | PFloat "64 word"
  | PStr string
  | PList "pyval list"
  | PDict "(string \<times> pyval) list"

abbreviation (input) a_acute :: string where "a_acute \<equiv> [CHR 0xC3, CHR 0xA1]"
abbreviation (input) a_tilde :: string where "a_tilde \<equiv> [CHR 0xC3, CHR 0xA3]"
abbreviation (input) c_cedil :: string where "c_cedil \<equiv> [CHR 0xC3, CHR 0xA7]"
abbreviation (input) i_acute :: string where "i_acute \<equiv> [CHR 0xC3, CHR 0xAD]"
abbreviation (input) o_acute :: string where "o_acute \<equiv> [CHR 0xC3, CHR 0xB3]"
abbreviation (input) o_tilde :: string where "o_tilde \<equiv> [CHR 0xC3, CHR 0xB5]"
abbreviation (input) u_acute :: string where "u_acute \<equiv> [CHR 0xC3, CHR 0xBA]"

text \<open>
  Python's truth value of an object, as \<open>if x\<close> and \<open>x and y\<close> test it: \<open>None\<close>,
  \<open>False\<close>, zero of either numeric type (for a float both \<open>0.0\<close> and \<open>-0.0\<close>, that
  is every bit but the sign clear) and the empty string, list and dictionary are false.
\<close>

fun truthy :: "pyval \<Rightarrow> bool" where
  "truthy PNone = False"
| "truthy (PBool b) = b"
| "truthy (PInt n) = (n \<noteq> 0)"
| "truthy (PFloat w) = (w AND 0x7FFFFFFFFFFFFFFF \<noteq> 0)"
| "truthy (PStr s) = (s \<noteq> [])"
| "truthy (PList xs) = (xs \<noteq> [])"
| "truthy (PDict kvs) = (kvs \<noteq> [])"

section \<open>The HTTP library as the scripts use it\<close>

text \<open>
  Both scripts call \<open>requests.get(endpoint, headers=..., params=...)\<close>. The request is
  the record of these three arguments. The network is a function from requests to
  outcomes: either the call raises a \<open>RequestException\<close> of the transport (connection
  refused, timeout, name resolution), or it returns a response.

  Of a response the scripts read \<open>status_code\<close>, and through \<open>raise_for_status\<close> and
  \<open>json\<close> the reason phrase, the final URL and the body. The body is kept as the
  outcome of decoding it: the decoded value when it is well-formed JSON, and otherwise
  the decoder's message.
\<close>

record request =
  endpoint :: string
  req_headers :: "(string \<times> string) list"
  params :: "(string \<times> string) list"

datatype body = JsonBody pyval | NotJson string

record response =
  status_code :: nat
  reason :: string
  url :: string
  content :: body

text \<open>
  The exceptions that occur. \<open>ValueError\<close> is the one the clients raise themselves, with
  its message. \<open>JSONDecodeError\<close> is what \<open>response.json()\<close> raises; in Python it is a
  subclass of \<open>ValueError\<close> (in recent versions of the library also of
  \<open>RequestException\<close>). \<open>HTTPError\<close> is raised by \<open>raise_for_status\<close> and keeps
  the response; it is a subclass of \<open>RequestException\<close>, and \<open>RequestException\<close> here
  stands for the transport failures of \<open>requests.get\<close>. \<open>KeyError\<close> and \<open>TypeError\<close>
  come from subscripting and iterating values.
\<close>

datatype exn =
    ValueError string
  | JSONDecodeError string
  | HTTPError response
  | RequestException string
  | KeyError string
  | TypeError

datatype get_outcome = Failed string | Responded response

type_synonym network = "request \<Rightarrow> get_outcome"

fun digits :: "nat \<Rightarrow> string" where
  "digits n =
     (if n < 10 then [char_of (48 + n)]
      else digits (n div 10) @ [char_of (48 + n mod 10)])"

declare digits.simps [simp del]

text \<open>
  \<open>Response.raise_for_status\<close>: a status from 400 to 499 is a client error, from 500
  to 599 a server error, and only these raise \<open>HTTPError\<close>; its message is built from
  the status, the reason phrase and the URL.
\<close>

definition http_error_msg :: "response \<Rightarrow> string" where
  "http_error_msg r =
     (if 400 \<le> status_code r \<and> status_code r < 500
      then digits (status_code r) @ '' Client Error: '' @ reason r @ '' for url: '' @ url r
      else if 500 \<le> status_code r \<and> status_code r < 600
      then digits (status_code r) @ '' Server Error: '' @ reason r @ '' for url: '' @ url r
      else [])"

definition raise_for_status :: "response \<Rightarrow> exn + unit" where
  "raise_for_status r = (if http_error_msg r \<noteq> [] then Inl (HTTPError r) else Inr ())"

definition response_json :: "response \<Rightarrow> exn + pyval" where
  "response_json r = (case content r of JsonBody v \<Rightarrow> Inr v | NotJson m \<Rightarrow> Inl (JSONDecodeError m))"

section \<open>The lookup clients\<close>

text \<open>
  \<open>CNPJAPI\<close> and \<open>CPFAPI\<close> have the same three attributes, set by \<open>__init__\<close>; the
  base URL has a default.
\<close>

record api =
  api_token :: string
  base_url :: string
  headers :: "(string \<times> string) list"

definition default_base_url :: string where
  "default_base_url = ''https://consultar.io/api/v1''"

definition api_init :: "string \<Rightarrow> string \<Rightarrow> api" where
  "api_init token base =
     \<lparr>api_token = token, base_url = base,
      headers = [(''Authorization'', ''Token '' @ token), (''Content-Type'', ''application/json'')]\<rparr>"

definition CNPJAPI :: "string \<Rightarrow> api" where
  "CNPJAPI token = api_init token default_base_url"


text \<open>
  The request each \<open>consultar\<close> sends, and the two statements that follow
  \<open>requests.get\<close> in the body of its \<open>try\<close>: \<open>raise_for_status\<close>, then \<open>json\<close>.
\<close>

definition cnpj_request :: "api \<Rightarrow> string \<Rightarrow> request" where
  "cnpj_request self cnpj =
     \<lparr>endpoint = base_url self @ ''/cnpj/consultar'', req_headers = headers self,
      params = [(''cnpj'', cnpj)]\<rparr>"


definition get_json :: "response \<Rightarrow> exn + pyval" where
  "get_json response =
     (case raise_for_status response of
        Inl e \<Rightarrow> Inl e
      | Inr _ \<Rightarrow> response_json response)"

text \<open>
  \<open>CNPJAPI.consultar\<close>. The \<open>except\<close> clause catches \<open>HTTPError\<close> only: a failure of
  \<open>requests.get\<close> and a failure of \<open>json\<close> pass through it. \<open>raise ... from e\<close> only
  records the cause on the new exception.
\<close>

definition CNPJAPI_consultar :: "network \<Rightarrow> api \<Rightarrow> string \<Rightarrow> exn + pyval" where
  "CNPJAPI_consultar net self cnpj =
     (case net (cnpj_request self cnpj) of
        Failed m \<Rightarrow> Inl (RequestException m)
      | Responded response \<Rightarrow>
          (case get_json response of
             Inl (HTTPError e) \<Rightarrow>
               if status_code response = 404
               then Inl (ValueError (''CNPJ n'' @ a_tilde @ ''o encontrado''))
               else if status_code response = 403
               then Inl (ValueError (''Erro de autentica'' @ c_cedil @ a_tilde @ ''o ou plano inativo''))
               else if status_code response = 400
               then Inl (ValueError (''Requisi'' @ c_cedil @ a_tilde @ ''o inv'' @ a_acute @ ''lida''))
               else Inl (HTTPError e)
           | other \<Rightarrow> other))"



section \<open>Printing\<close>

text \<open>
  What a run prints is the list of its \<open>print\<close> calls, together with the exception that
  ended it, if one did. \<open>Line s\<close> is a call whose text is the string \<open>s\<close>.
  \<open>Fmt l v\<close> is a call \<open>print(f"l{v}")\<close>: its text is the label \<open>l\<close> followed by
  Python's \<open>str\<close> of the value \<open>v\<close>; the value is kept as it is.
\<close>

datatype printed = Line string | Fmt string pyval

type_synonym run = "printed list \<times> exn option"

text \<open>Subscripting \<open>obj[key]\<close> with a string key: only a dictionary accepts it.\<close>

fun getitem :: "pyval \<Rightarrow> string \<Rightarrow> exn + pyval" where
  "getitem (PDict kvs) k = (case map_of kvs k of None \<Rightarrow> Inl (KeyError k) | Some v \<Rightarrow> Inr v)"
| "getitem obj k = Inl TypeError"

definition print_line :: "string \<Rightarrow> run" where
  "print_line s = ([Line s], None)"

definition print_field :: "string \<Rightarrow> pyval \<Rightarrow> string \<Rightarrow> run" where
  "print_field label obj key =
     (case getitem obj key of Inl e \<Rightarrow> ([], Some e) | Inr v \<Rightarrow> ([Fmt label v], None))"

text \<open>Statements in sequence: the first exception ends the run, keeping what was printed.\<close>

fun block :: "run list \<Rightarrow> run" where
  "block [] = ([], None)"
| "block (s # ss) =
     (case s of
        (out, Some e) \<Rightarrow> (out, Some e)
      | (out, None) \<Rightarrow> (case block ss of (out', r) \<Rightarrow> (out @ out', r)))"

text \<open>
  \<open>if obj[k1] and obj[k2]: body\<close>. The operator \<open>and\<close> evaluates its right operand only
  when the left one is true.
\<close>

definition if_both :: "pyval \<Rightarrow> string \<Rightarrow> string \<Rightarrow> run \<Rightarrow> run" where
  "if_both obj k1 k2 body =
     (case getitem obj k1 of
        Inl e \<Rightarrow> ([], Some e)
      | Inr a \<Rightarrow>
          if \<not> truthy a then ([], None)
          else (case getitem obj k2 of
                  Inl e \<Rightarrow> ([], Some e)
                | Inr b \<Rightarrow> if truthy b then body else ([], None)))"

definition if_item :: "pyval \<Rightarrow> string \<Rightarrow> run \<Rightarrow> run" where
  "if_item obj k body =
     (case getitem obj k of
        Inl e \<Rightarrow> ([], Some e)
      | Inr a \<Rightarrow> if truthy a then body else ([], None))"

text \<open>
  \<open>for x in obj[k]: body\<close>. A list gives its elements, a string its characters as
  strings (here one for each byte of the encoding), a dictionary its keys; nothing
  else is iterable. The bodies of the two loops of the formatter subscript the element
  with a string, which fails on a string element whatever it holds.
\<close>

fun iter :: "pyval \<Rightarrow> exn + pyval list" where
  "iter (PList xs) = Inr xs"
| "iter (PStr s) = Inr (map (\<lambda>c. PStr [c]) s)"
| "iter (PDict kvs) = Inr (map (\<lambda>kv. PStr (fst kv)) kvs)"
| "iter v = Inl TypeError"

definition for_item :: "pyval \<Rightarrow> string \<Rightarrow> (pyval \<Rightarrow> run) \<Rightarrow> run" where
  "for_item obj k body =
     (case getitem obj k of
        Inl e \<Rightarrow> ([], Some e)
      | Inr v \<Rightarrow> (case iter v of Inl e \<Rightarrow> ([], Some e) | Inr xs \<Rightarrow> block (map body xs)))"

section \<open>The formatter of the organization script\<close>

definition basic_info :: "pyval \<Rightarrow> run" where
  "basic_info resultado = block
     [print_line (''\<newline>Informa'' @ c_cedil @ o_tilde @ ''es B'' @ a_acute @ ''sicas:''),
      print_field ''CNPJ: '' resultado ''cnpj_formatado'',
      print_field (''Raz'' @ a_tilde @ ''o Social: '') resultado ''razao_social'',
      print_field ''Nome Fantasia: '' resultado ''nome_fantasia'',
      print_field (''Natureza Jur'' @ i_acute @ ''dica: '') resultado ''natureza_juridica_descricao'',
      print_field ''Capital Social: '' resultado ''capital_social_formatado'',
      print_field ''Porte: '' resultado ''porte_empresa_descricao'',
      print_field ''Matriz/Filial: '' resultado ''matriz_filial_descricao'',
      print_field (''Situa'' @ c_cedil @ a_tilde @ ''o Cadastral: '') resultado ''situacao_cadastral_descricao'',
      print_field (''Data da Situa'' @ c_cedil @ a_tilde @ ''o: '') resultado ''data_situacao_cadastral'',
      print_field (''Motivo da Situa'' @ c_cedil @ a_tilde @ ''o: '') resultado
        ''motivo_situacao_cadastral_descricao'',
      print_field ''Data de Abertura: '' resultado ''data_inicio_atividades'']"

definition address :: "pyval \<Rightarrow> run" where
  "address resultado = block
     [print_line (''\<newline>Endere'' @ c_cedil @ ''o:''),
      print_field ''Tipo de Logradouro: '' resultado ''tipo_logradouro'',
      print_field ''Logradouro: '' resultado ''logradouro'',
      print_field (''N'' @ u_acute @ ''mero: '') resultado ''numero'',
      print_field ''Complemento: '' resultado ''complemento'',
      print_field ''Bairro: '' resultado ''bairro'',
      print_field ''Cidade: '' resultado ''municipio_descricao'',
      print_field ''UF: '' resultado ''uf'',
      print_field ''CEP: '' resultado ''cep'']"

definition contact :: "pyval \<Rightarrow> run" where
  "contact resultado = block
     [print_line ''\<newline>Contato:'',
      if_both resultado ''ddd1'' ''telefone1'' (block
        [print_field ''DDD: '' resultado ''ddd1'',
         print_field ''Telefone: '' resultado ''telefone1'']),
      if_both resultado ''ddd2'' ''telefone2'' (block
        [print_field ''DDD 2: '' resultado ''ddd2'',
         print_field ''Telefone 2: '' resultado ''telefone2'']),
      if_both resultado ''ddd_fax'' ''fax'' (block
        [print_field ''DDD Fax: '' resultado ''ddd_fax'',
         print_field ''Fax: '' resultado ''fax'']),
      print_field ''Email: '' resultado ''email'']"

definition main_activity :: "pyval \<Rightarrow> run" where
  "main_activity resultado = block
     [print_line ''\<newline>Atividade Principal:'',
      print_field (''C'' @ o_acute @ ''digo CNAE: '') resultado ''cnae_principal_codigo'',
      print_field (''Descri'' @ c_cedil @ a_tilde @ ''o CNAE: '') resultado ''cnae_principal_descricao'']"

definition print_cnae :: "pyval \<Rightarrow> run" where
  "print_cnae cnae = block
     [print_field (''C'' @ o_acute @ ''digo: '') cnae ''codigo'',
      print_field (''Descri'' @ c_cedil @ a_tilde @ ''o: '') cnae ''descricao'']"

definition secondary_activities :: "pyval \<Rightarrow> run" where
  "secondary_activities resultado =
     if_item resultado ''lista_cnae_secundarios'' (block
       [print_line (''\<newline>Atividades Secund'' @ a_acute @ ''rias:''),
        for_item resultado ''lista_cnae_secundarios'' print_cnae])"

definition print_socio :: "pyval \<Rightarrow> run" where
  "print_socio socio = block
     [print_field (''\<newline>S'' @ o_acute @ ''cio: '') socio ''nome_qsa'',
      print_field ''Tipo: '' socio ''tipo_qsa_descricao'',
      print_field ''CPF/CNPJ: '' socio ''cpf_cnpj_qsa_formatado'',
      print_field (''Qualifica'' @ c_cedil @ a_tilde @ ''o: '') socio ''qualificacao_qsa_descricao'',
      print_field ''Data de Entrada: '' socio ''data_entrada_qsa'',
      if_item socio ''faixa_etaria_qsa_descricao''
        (print_field (''Faixa Et'' @ a_acute @ ''ria: '') socio ''faixa_etaria_qsa_descricao'')]"

definition ownership :: "pyval \<Rightarrow> run" where
  "ownership resultado =
     if_item resultado ''lista_qsa'' (block
       [print_line (''\<newline>Quadro Societ'' @ a_acute @ ''rio:''),
        for_item resultado ''lista_qsa'' print_socio])"

definition format_cnpj_info :: "pyval \<Rightarrow> run" where
  "format_cnpj_info resultado = block
     [basic_info resultado, address resultado, contact resultado, main_activity resultado,
      secondary_activities resultado, ownership resultado]"

section \<open>The entry point of the organization script\<close>

text \<open>
  The two \<open>except\<close> clauses of \<open>main\<close>, in their order. \<open>except ValueError\<close> takes
  \<open>ValueError\<close> and its subclass \<open>JSONDecodeError\<close>; \<open>except RequestException\<close> takes
  \<open>HTTPError\<close> and the transport failures. The text of an exception made from one
  string is that string. Any other exception leaves \<open>main\<close> and ends the process with
  a traceback.
\<close>

fun main_except :: "exn \<Rightarrow> run" where
  "main_except (ValueError m) = ([Line (''Erro: '' @ m)], None)"
| "main_except (JSONDecodeError m) = ([Line (''Erro: '' @ m)], None)"
| "main_except (HTTPError r) =
     ([Line (''Erro na requisi'' @ c_cedil @ a_tilde @ ''o: '' @ http_error_msg r)], None)"
| "main_except (RequestException m) =
     ([Line (''Erro na requisi'' @ c_cedil @ a_tilde @ ''o: '' @ m)], None)"
| "main_except e = ([], Some e)"

definition main :: "network \<Rightarrow> run" where
  "main net =
     (let API_TOKEN = ''seu-token-aqui'';
          cnpj_api = CNPJAPI API_TOKEN;
          cnpj = ''42515236000100''
      in case CNPJAPI_consultar net cnpj_api cnpj of
           Inl e \<Rightarrow> main_except e
         | Inr resultado \<Rightarrow>
             (case format_cnpj_info resultado of
                (out, None) \<Rightarrow> (out, None)
              | (out, Some e) \<Rightarrow> (case main_except e of (out', r) \<Rightarrow> (out @ out', r))))"

section \<open>Notions for the properties\<close>

text \<open>What a run printed, as a set, and whether it ended without an exception.\<close>

definition printed_by :: "run \<Rightarrow> printed set" where
  "printed_by r = set (fst r)"

definition completes :: "run \<Rightarrow> bool" where
  "completes r = (snd r = None)"

text \<open>
  The keys that \<open>format_cnpj_info\<close> subscripts on the result outside any condition, in
  the order of the source.
\<close>

definition fixed_keys :: "string list" where
  "fixed_keys =
     [''cnpj_formatado'', ''razao_social'', ''nome_fantasia'', ''natureza_juridica_descricao'',
      ''capital_social_formatado'', ''porte_empresa_descricao'', ''matriz_filial_descricao'',
      ''situacao_cadastral_descricao'', ''data_situacao_cadastral'',
      ''motivo_situacao_cadastral_descricao'', ''data_inicio_atividades'',
      ''tipo_logradouro'', ''logradouro'', ''numero'', ''complemento'', ''bairro'',
      ''municipio_descricao'', ''uf'', ''cep'',
      ''ddd1'', ''ddd2'', ''ddd_fax'', ''email'',
      ''cnae_principal_codigo'', ''cnae_principal_descricao'',
      ''lista_cnae_secundarios'', ''lista_qsa'']"

text \<open>A run that ended normally or with a \<open>KeyError\<close>.\<close>

definition key_error_only :: "run \<Rightarrow> bool" where
  "key_error_only r = (case snd r of None \<Rightarrow> True | Some (KeyError k) \<Rightarrow> True | Some e \<Rightarrow> False)"

section \<open>Example data\<close>

text \<open>A network whose server answers every request with the same response.\<close>

definition server :: "response \<Rightarrow> network" where
  "server r req = Responded r"

text \<open>
  The fields of a result that the formatter always prints, one secondary activity, and
  the five leading fields of an ownership entry.
\<close>

definition sample_fields :: "(string \<times> pyval) list" where
  "sample_fields =
     [(''cnpj_formatado'', PStr ''42.515.236/0001-00''),
      (''razao_social'', PStr ''EXEMPLO TECNOLOGIA LTDA''),
      (''nome_fantasia'', PStr ''EXEMPLO''),
      (''natureza_juridica_descricao'', PStr ''Sociedade Empresaria Limitada''),
      (''capital_social_formatado'', PStr ''R$ 10.000,00''),
      (''porte_empresa_descricao'', PStr ''Micro Empresa''),
      (''matriz_filial_descricao'', PStr ''Matriz''),
      (''situacao_cadastral_descricao'', PStr ''Ativa''),
      (''data_situacao_cadastral'', PStr ''2021-06-28''),
      (''motivo_situacao_cadastral_descricao'', PStr ''Sem motivo''),
      (''data_inicio_atividades'', PStr ''2021-06-28''),
      (''tipo_logradouro'', PStr ''Rua''),
      (''logradouro'', PStr ''das Flores''),
      (''numero'', PStr ''100''),
      (''complemento'', PStr []),
      (''bairro'', PStr ''Centro''),
      (''municipio_descricao'', PStr ''Sao Paulo''),
      (''uf'', PStr ''SP''),
      (''cep'', PStr ''01001000''),
      (''email'', PNone),
      (''cnae_principal_codigo'', PStr ''6201501''),
      (''cnae_principal_descricao'', PStr ''Desenvolvimento de programas sob encomenda'')]"

definition sample_cnae :: pyval where
  "sample_cnae = PDict [(''codigo'', PStr ''6202300''), (''descricao'', PStr ''Programas customizaveis'')]"

definition sample_socio_fields :: "(string \<times> pyval) list" where
  "sample_socio_fields =
     [(''nome_qsa'', PStr ''FULANO DE TAL''),
      (''tipo_qsa_descricao'', PStr ''Pessoa Fisica''),
      (''cpf_cnpj_qsa_formatado'', PStr ''***.123.456-**''),
      (''qualificacao_qsa_descricao'', PStr ''Socio-Administrador''),
      (''data_entrada_qsa'', PStr ''2021-06-28'')]"

section \<open>Status codes and the classified errors\<close>

lemma get_json_error:
  "400 \<le> status_code r \<Longrightarrow> status_code r < 600 \<Longrightarrow> get_json r = Inl (HTTPError r)"
  by (auto simp: get_json_def raise_for_status_def http_error_msg_def)

lemma get_json_no_error:
  "status_code r < 400 \<or> 600 \<le> status_code r \<Longrightarrow> get_json r = response_json r"
  by (auto simp: get_json_def raise_for_status_def http_error_msg_def)

lemma CNPJAPI_consultar_no_error:
  assumes "net (cnpj_request self cnpj) = Responded r"
    and "status_code r < 400 \<or> 600 \<le> status_code r"
  shows "CNPJAPI_consultar net self cnpj = response_json r"
  using assms
  by (simp add: CNPJAPI_consultar_def get_json_no_error response_json_def
      split: body.splits)









text \<open>
  C4. When the request that \<open>main\<close> sends for the identifier 42515236000100 is
  answered with status 403, \<open>main\<close> prints the single line
  \<open>Erro: \<close> followed by the message of the authentication error, and ends normally.
\<close>

theorem main_403:
  assumes "net (cnpj_request (CNPJAPI ''seu-token-aqui'') ''42515236000100'') = Responded r"
    and "status_code r = 403"
  shows "main net =
    ([Line (''Erro: Erro de autentica'' @ c_cedil @ a_tilde @ ''o ou plano inativo'')], None)"
  using assms
  by (simp add: main_def CNPJAPI_consultar_def get_json_error)

theorem main_403_witness:
  "main (server \<lparr>status_code = 403, reason = ''Forbidden'', url = ''u'', content = NotJson ''x''\<rparr>) =
    ([Line (''Erro: Erro de autentica'' @ c_cedil @ a_tilde @ ''o ou plano inativo'')], None)"
  using main_403 [of
      "server \<lparr>status_code = 403, reason = ''Forbidden'', url = ''u'', content = NotJson ''x''\<rparr>"
      "\<lparr>status_code = 403, reason = ''Forbidden'', url = ''u'', content = NotJson ''x''\<rparr>"]
  by (simp add: server_def)

section \<open>The birth date of an individual lookup\<close>




section \<open>A body that is not JSON\<close>

text \<open>
  C9, as the claim states it, fails: when a 200 response has a body that is not JSON,
  \<open>main\<close> prints a line that starts with \<open>Erro: \<close> and ends normally, with no
  exception left.
\<close>

theorem main_undecodable_200:
  "main (server \<lparr>status_code = 200, reason = ''OK'', url = ''u'',
           content = NotJson ''Expecting value: line 1 column 1 (char 0)''\<rparr>)
   = ([Line ''Erro: Expecting value: line 1 column 1 (char 0)''], None)"
  by (simp add: main_def CNPJAPI_consultar_no_error server_def response_json_def)

text \<open>
  C9, amended. When the response is 2xx and its body is not well-formed JSON,
  \<open>CNPJAPI.consultar\<close> does not classify the failure: it lets the decoder's
  \<open>JSONDecodeError\<close> through. That exception is a \<open>ValueError\<close>, so the first handler
  of \<open>main\<close> catches it: \<open>main\<close> prints the one line \<open>Erro: \<close> followed by the
  decoder's message and ends normally.
\<close>

theorem main_undecodable_body:
  assumes "net (cnpj_request (CNPJAPI ''seu-token-aqui'') ''42515236000100'') = Responded r"
    and "200 \<le> status_code r" and "status_code r < 300"
    and "content r = NotJson m"
  shows "CNPJAPI_consultar net (CNPJAPI ''seu-token-aqui'') ''42515236000100'' = Inl (JSONDecodeError m) \<and>
         main net = ([Line (''Erro: '' @ m)], None)"
  using assms
  by (simp add: main_def CNPJAPI_consultar_no_error response_json_def)

theorem main_undecodable_body_witness:
  "CNPJAPI_consultar
     (server \<lparr>status_code = 204, reason = ''No Content'', url = ''u'', content = NotJson ''Expecting value''\<rparr>)
     (CNPJAPI ''seu-token-aqui'') ''42515236000100'' = Inl (JSONDecodeError ''Expecting value'') \<and>
   main (server \<lparr>status_code = 204, reason = ''No Content'', url = ''u'', content = NotJson ''Expecting value''\<rparr>)
     = ([Line ''Erro: Expecting value''], None)"
  using main_undecodable_body [of
      "server \<lparr>status_code = 204, reason = ''No Content'', url = ''u'', content = NotJson ''Expecting value''\<rparr>"
      "\<lparr>status_code = 204, reason = ''No Content'', url = ''u'', content = NotJson ''Expecting value''\<rparr>"
      "''Expecting value''"]
  by (simp add: server_def)

section \<open>Runs of statements\<close>

lemma block_ok: "completes s \<Longrightarrow> block (s # ss) = (fst s @ fst (block ss), snd (block ss))"
  unfolding completes_def by (cases s) (auto split: prod.splits)

lemma completes_block: "completes (block ss) \<longleftrightarrow> (\<forall>s\<in>set ss. completes s)"
  unfolding completes_def
  by (induction ss) (auto split: prod.splits option.splits)

lemma block_completes_out: "completes (block ss) \<Longrightarrow> fst (block ss) = concat (map fst ss)"
  unfolding completes_def
  by (induction ss) (auto split: prod.splits option.splits)

lemma block_out_starts: "\<exists>post. fst (block (s # ss)) = fst s @ post"
  by (cases s) (auto split: prod.splits option.splits)

lemma printed_by_block: "x \<in> printed_by (block ss) \<Longrightarrow> x \<in> (\<Union>s\<in>set ss. printed_by s)"
  unfolding printed_by_def
  by (induction ss) (auto split: prod.splits option.splits)

lemma printed_by_block_completes:
  "completes (block ss) \<Longrightarrow> printed_by (block ss) = (\<Union>s\<in>set ss. printed_by s)"
  by (simp add: printed_by_def block_completes_out)

declare block.simps [simp del]

lemma print_line_out: "x \<in> printed_by (print_line s) \<longleftrightarrow> x = Line s"
  by (auto simp: print_line_def printed_by_def)

lemma print_line_completes: "completes (print_line s)"
  by (simp add: print_line_def completes_def)

lemma print_field_out:
  "x \<in> printed_by (print_field l obj k) \<longleftrightarrow> (\<exists>v. getitem obj k = Inr v \<and> x = Fmt l v)"
  by (auto simp: print_field_def printed_by_def split: sum.splits)

lemma print_field_completes: "completes (print_field l obj k) \<longleftrightarrow> (\<exists>v. getitem obj k = Inr v)"
  by (auto simp: print_field_def completes_def split: sum.splits)

lemma if_both_out:
  "x \<in> printed_by (if_both obj k1 k2 body) \<longleftrightarrow>
     (\<exists>a b. getitem obj k1 = Inr a \<and> truthy a \<and> getitem obj k2 = Inr b \<and> truthy b \<and>
        x \<in> printed_by body)"
  by (auto simp: if_both_def printed_by_def split: sum.splits)

lemma if_both_completes:
  "completes (if_both obj k1 k2 body) \<longleftrightarrow>
     (\<exists>a. getitem obj k1 = Inr a \<and>
        (truthy a \<longrightarrow> (\<exists>b. getitem obj k2 = Inr b \<and> (truthy b \<longrightarrow> completes body))))"
  by (auto simp: if_both_def completes_def split: sum.splits)

lemma if_item_out:
  "x \<in> printed_by (if_item obj k body) \<longleftrightarrow>
     (\<exists>a. getitem obj k = Inr a \<and> truthy a \<and> x \<in> printed_by body)"
  by (auto simp: if_item_def printed_by_def split: sum.splits)

lemma if_item_completes:
  "completes (if_item obj k body) \<longleftrightarrow>
     (\<exists>a. getitem obj k = Inr a \<and> (truthy a \<longrightarrow> completes body))"
  by (auto simp: if_item_def completes_def split: sum.splits)

lemma for_item_out:
  assumes "x \<in> printed_by (for_item obj k body)"
  shows "\<exists>e. x \<in> printed_by (body e)"
proof -
  from assms obtain xs where "x \<in> printed_by (block (map body xs))"
    by (auto simp: for_item_def printed_by_def split: sum.splits)
  from printed_by_block [OF this] show ?thesis
    by auto
qed

lemma for_item_list:
  "getitem obj k = Inr (PList xs) \<Longrightarrow> for_item obj k body = block (map body xs)"
  by (simp add: for_item_def)

lemmas statement_out = print_line_out print_field_out if_both_out if_item_out

lemmas statement_completes =
  completes_block print_line_completes print_field_completes if_both_completes if_item_completes

lemmas section_defs =
  basic_info_def address_def contact_def main_activity_def secondary_activities_def
  ownership_def print_cnae_def print_socio_def

lemma getitem_PDict: "getitem (PDict kvs) k = Inr v \<longleftrightarrow> map_of kvs k = Some v"
  by (simp split: option.splits)

section \<open>The contact lines\<close>








section \<open>The secondary activities\<close>

lemma secondary_header_printed:
  assumes "Line (''\<newline>Atividades Secund'' @ a_acute @ ''rias:'') \<in> printed_by (format_cnpj_info resultado)"
  shows "\<exists>a. getitem resultado ''lista_cnae_secundarios'' = Inr a \<and> truthy a"
  using assms unfolding format_cnpj_info_def
  by (auto dest!: printed_by_block for_item_out simp: section_defs statement_out)

lemma secondary_lines_elsewhere:
  assumes "x \<in> printed_by (basic_info resultado) \<union> printed_by (address resultado) \<union>
      printed_by (contact resultado) \<union> printed_by (main_activity resultado) \<union>
      printed_by (ownership resultado)"
  shows "x \<noteq> Line (''\<newline>Atividades Secund'' @ a_acute @ ''rias:'') \<and>
         (\<forall>v. x \<noteq> Fmt (''C'' @ o_acute @ ''digo: '') v \<and>
              x \<noteq> Fmt (''Descri'' @ c_cedil @ a_tilde @ ''o: '') v)"
  using assms
  by (auto dest!: printed_by_block for_item_out simp: section_defs statement_out)

lemma secondary_one_entry:
  assumes "getitem resultado ''lista_cnae_secundarios'' = Inr (PList [cnae])"
    and "getitem cnae ''codigo'' = Inr c" and "getitem cnae ''descricao'' = Inr d"
  shows "secondary_activities resultado =
           ([Line (''\<newline>Atividades Secund'' @ a_acute @ ''rias:''),
             Fmt (''C'' @ o_acute @ ''digo: '') c,
             Fmt (''Descri'' @ c_cedil @ a_tilde @ ''o: '') d], None)"
  using assms
  by (simp add: secondary_activities_def if_item_def for_item_def print_cnae_def
      print_field_def print_line_def block.simps)

text \<open>
  C6. In what \<open>format_cnpj_info\<close> prints for a result: when \<open>lista_cnae_secundarios\<close> is
  the empty list, the header of the secondary activities is not printed; when it is a
  list of one entry with a code and a description, and the sections before it were
  printed, the header is printed, followed by the code line and the description line of
  that entry, and neither the header nor a line of such a pair is printed anywhere
  else.
\<close>

theorem secondary_activities_section:
  "(getitem resultado ''lista_cnae_secundarios'' = Inr (PList []) \<longrightarrow>
      Line (''\<newline>Atividades Secund'' @ a_acute @ ''rias:'') \<notin> printed_by (format_cnpj_info resultado)) \<and>
   (getitem resultado ''lista_cnae_secundarios'' = Inr (PList [cnae]) \<and>
    getitem cnae ''codigo'' = Inr c \<and> getitem cnae ''descricao'' = Inr d \<and>
    completes (basic_info resultado) \<and> completes (address resultado) \<and>
    completes (contact resultado) \<and> completes (main_activity resultado) \<longrightarrow>
      (\<exists>pre post.
         fst (format_cnpj_info resultado) =
           pre @ [Line (''\<newline>Atividades Secund'' @ a_acute @ ''rias:''),
                  Fmt (''C'' @ o_acute @ ''digo: '') c,
                  Fmt (''Descri'' @ c_cedil @ a_tilde @ ''o: '') d] @ post \<and>
         (\<forall>x\<in>set pre \<union> set post.
            x \<noteq> Line (''\<newline>Atividades Secund'' @ a_acute @ ''rias:'') \<and>
            (\<forall>v. x \<noteq> Fmt (''C'' @ o_acute @ ''digo: '') v \<and>
                 x \<noteq> Fmt (''Descri'' @ c_cedil @ a_tilde @ ''o: '') v))))"
proof (intro conjI impI)
  assume "getitem resultado ''lista_cnae_secundarios'' = Inr (PList [])"
  then show "Line (''\<newline>Atividades Secund'' @ a_acute @ ''rias:'') \<notin> printed_by (format_cnpj_info resultado)"
    using secondary_header_printed [of resultado] by auto
next
  assume h: "getitem resultado ''lista_cnae_secundarios'' = Inr (PList [cnae]) \<and>
    getitem cnae ''codigo'' = Inr c \<and> getitem cnae ''descricao'' = Inr d \<and>
    completes (basic_info resultado) \<and> completes (address resultado) \<and>
    completes (contact resultado) \<and> completes (main_activity resultado)"
  let ?pre = "fst (basic_info resultado) @ fst (address resultado) @ fst (contact resultado) @
    fst (main_activity resultado)"
  let ?post = "fst (ownership resultado)"
  let ?mid = "[Line (''\<newline>Atividades Secund'' @ a_acute @ ''rias:''),
                  Fmt (''C'' @ o_acute @ ''digo: '') c,
                  Fmt (''Descri'' @ c_cedil @ a_tilde @ ''o: '') d]"
  from h have s: "secondary_activities resultado = (?mid, None)"
    using secondary_one_entry by blast
  then have "completes (secondary_activities resultado)"
    by (simp add: completes_def)
  with h s have out: "fst (format_cnpj_info resultado) = ?pre @ ?mid @ ?post"
    by (simp add: format_cnpj_info_def block_ok) (simp add: block.simps split: prod.splits option.splits)
  have "\<forall>x\<in>set ?pre \<union> set ?post.
            x \<noteq> Line (''\<newline>Atividades Secund'' @ a_acute @ ''rias:'') \<and>
            (\<forall>v. x \<noteq> Fmt (''C'' @ o_acute @ ''digo: '') v \<and>
                 x \<noteq> Fmt (''Descri'' @ c_cedil @ a_tilde @ ''o: '') v)"
  proof
    fix x assume "x \<in> set ?pre \<union> set ?post"
    then have "x \<in> printed_by (basic_info resultado) \<union> printed_by (address resultado) \<union>
      printed_by (contact resultado) \<union> printed_by (main_activity resultado) \<union>
      printed_by (ownership resultado)"
      by (auto simp: printed_by_def)
    from secondary_lines_elsewhere [OF this]
    show "x \<noteq> Line (''\<newline>Atividades Secund'' @ a_acute @ ''rias:'') \<and>
            (\<forall>v. x \<noteq> Fmt (''C'' @ o_acute @ ''digo: '') v \<and>
                 x \<noteq> Fmt (''Descri'' @ c_cedil @ a_tilde @ ''o: '') v)" .
  qed
  with out show "\<exists>pre post.
         fst (format_cnpj_info resultado) = pre @ ?mid @ post \<and>
         (\<forall>x\<in>set pre \<union> set post.
            x \<noteq> Line (''\<newline>Atividades Secund'' @ a_acute @ ''rias:'') \<and>
            (\<forall>v. x \<noteq> Fmt (''C'' @ o_acute @ ''digo: '') v \<and>
                 x \<noteq> Fmt (''Descri'' @ c_cedil @ a_tilde @ ''o: '') v))"
    by blast
qed

theorem secondary_activities_section_witness:
  "Line (''\<newline>Atividades Secund'' @ a_acute @ ''rias:'') \<notin> printed_by (format_cnpj_info (PDict (sample_fields @
        [(''ddd1'', PNone), (''ddd2'', PNone), (''ddd_fax'', PNone),
         (''lista_cnae_secundarios'', PList []), (''lista_qsa'', PList [])]))) \<and>
   (\<exists>pre post.
      fst (format_cnpj_info (PDict (sample_fields @
        [(''ddd1'', PNone), (''ddd2'', PNone), (''ddd_fax'', PNone),
         (''lista_cnae_secundarios'', PList [sample_cnae]), (''lista_qsa'', PList [])]))) =
        pre @ [Line (''\<newline>Atividades Secund'' @ a_acute @ ''rias:''),
               Fmt (''C'' @ o_acute @ ''digo: '') (PStr ''6202300''),
               Fmt (''Descri'' @ c_cedil @ a_tilde @ ''o: '') (PStr ''Programas customizaveis'')] @ post \<and>
      (\<forall>x\<in>set pre \<union> set post.
         x \<noteq> Line (''\<newline>Atividades Secund'' @ a_acute @ ''rias:'') \<and>
         (\<forall>v. x \<noteq> Fmt (''C'' @ o_acute @ ''digo: '') v \<and>
              x \<noteq> Fmt (''Descri'' @ c_cedil @ a_tilde @ ''o: '') v)))"
proof -
  let ?none = "PDict (sample_fields @
        [(''ddd1'', PNone), (''ddd2'', PNone), (''ddd_fax'', PNone),
         (''lista_cnae_secundarios'', PList []), (''lista_qsa'', PList [])])"
  let ?one = "PDict (sample_fields @
        [(''ddd1'', PNone), (''ddd2'', PNone), (''ddd_fax'', PNone),
         (''lista_cnae_secundarios'', PList [sample_cnae]), (''lista_qsa'', PList [])])"
  have n: "getitem ?none ''lista_cnae_secundarios'' = Inr (PList [])"
    by code_simp
  have o: "getitem ?one ''lista_cnae_secundarios'' = Inr (PList [sample_cnae]) \<and>
      getitem sample_cnae ''codigo'' = Inr (PStr ''6202300'') \<and>
      getitem sample_cnae ''descricao'' = Inr (PStr ''Programas customizaveis'') \<and>
      completes (basic_info ?one) \<and> completes (address ?one) \<and>
      completes (contact ?one) \<and> completes (main_activity ?one)"
    by code_simp
  from n o
    secondary_activities_section [where resultado = ?none]
    secondary_activities_section [where cnae = sample_cnae and c = "PStr ''6202300''"
      and d = "PStr ''Programas customizaveis''" and resultado = ?one]
  show ?thesis
    by blast
qed

section \<open>The age bracket of an ownership entry\<close>

lemma ownership_entries:
  assumes "getitem resultado ''lista_qsa'' = Inr (PList qs)"
    and "completes (format_cnpj_info resultado)"
    and "socio \<in> set qs"
  shows "completes (print_socio socio) \<and>
         printed_by (print_socio socio) \<subseteq> printed_by (format_cnpj_info resultado)"
proof -
  from assms(3) have t: "truthy (PList qs)"
    by auto
  from assms(2) have o: "completes (ownership resultado)"
    by (simp add: format_cnpj_info_def completes_block)
  with assms(1) t have b: "completes (block
       [print_line (''\<newline>Quadro Societ'' @ a_acute @ ''rio:''),
        for_item resultado ''lista_qsa'' print_socio])"
    by (simp add: ownership_def if_item_completes)
  then have l: "completes (block (map print_socio qs))"
    using assms(1) by (simp add: completes_block for_item_list)
  with assms(3) have c: "completes (print_socio socio)"
    by (simp add: completes_block)
  from l assms(3) have "printed_by (print_socio socio) \<subseteq> printed_by (block (map print_socio qs))"
    by (auto simp: printed_by_block_completes)
  also from b assms(1) have "\<dots> \<subseteq> printed_by (block
       [print_line (''\<newline>Quadro Societ'' @ a_acute @ ''rio:''),
        for_item resultado ''lista_qsa'' print_socio])"
    by (auto simp: printed_by_block_completes for_item_list)
  also from assms(1) t have "\<dots> \<subseteq> printed_by (ownership resultado)"
    by (auto simp: ownership_def if_item_out)
  also from assms(2) have "\<dots> \<subseteq> printed_by (format_cnpj_info resultado)"
    unfolding format_cnpj_info_def by (auto simp: printed_by_block_completes)
  finally show ?thesis
    using c by simp
qed

lemma socio_age_bracket:
  assumes "completes (print_socio socio)"
  shows "\<exists>v. getitem socio ''faixa_etaria_qsa_descricao'' = Inr v \<and>
           (\<forall>w. Fmt (''Faixa Et'' @ a_acute @ ''ria: '') w \<in> printed_by (print_socio socio)
                \<longleftrightarrow> w = v \<and> truthy v)"
proof -
  from assms obtain v where v: "getitem socio ''faixa_etaria_qsa_descricao'' = Inr v"
    by (auto simp: print_socio_def statement_completes)
  from assms have "printed_by (print_socio socio) = (\<Union>s\<in>set
     [print_field (''\<newline>S'' @ o_acute @ ''cio: '') socio ''nome_qsa'',
      print_field ''Tipo: '' socio ''tipo_qsa_descricao'',
      print_field ''CPF/CNPJ: '' socio ''cpf_cnpj_qsa_formatado'',
      print_field (''Qualifica'' @ c_cedil @ a_tilde @ ''o: '') socio ''qualificacao_qsa_descricao'',
      print_field ''Data de Entrada: '' socio ''data_entrada_qsa'',
      if_item socio ''faixa_etaria_qsa_descricao''
        (print_field (''Faixa Et'' @ a_acute @ ''ria: '') socio ''faixa_etaria_qsa_descricao'')].
      printed_by s)"
    unfolding print_socio_def by (rule printed_by_block_completes)
  with v show ?thesis
    by (auto simp: statement_out)
qed

lemma socio_without_age_bracket:
  assumes "map_of kvs ''faixa_etaria_qsa_descricao'' = None"
  shows "(\<exists>k. snd (print_socio (PDict kvs)) = Some (KeyError k)) \<and>
         (\<forall>w. Fmt (''Faixa Et'' @ a_acute @ ''ria: '') w \<notin> printed_by (print_socio (PDict kvs)))"
proof
  show "\<exists>k. snd (print_socio (PDict kvs)) = Some (KeyError k)"
    using assms
    by (simp add: print_socio_def block.simps print_field_def if_item_def split: option.splits)
  show "\<forall>w. Fmt (''Faixa Et'' @ a_acute @ ''ria: '') w \<notin> printed_by (print_socio (PDict kvs))"
    using assms
    by (auto dest!: printed_by_block simp: print_socio_def statement_out)
qed

text \<open>
  C8, as the claim states it, fails: a result whose one ownership entry has no key
  \<open>faixa_etaria_qsa_descricao\<close> is not formatted without error. The formatter raises
  \<open>KeyError\<close> for that key.
\<close>

theorem absent_age_bracket_raises:
  "map_of sample_socio_fields ''faixa_etaria_qsa_descricao'' = None \<and>
   snd (format_cnpj_info (PDict (sample_fields @
        [(''ddd1'', PNone), (''ddd2'', PNone), (''ddd_fax'', PNone),
         (''lista_cnae_secundarios'', PList []),
         (''lista_qsa'', PList [PDict sample_socio_fields])])))
     = Some (KeyError ''faixa_etaria_qsa_descricao'')"
  by code_simp

text \<open>
  C8, amended. For every ownership entry that \<open>format_cnpj_info\<close> processes the key
  \<open>faixa_etaria_qsa_descricao\<close> must be present, and the age-bracket line is printed if
  and only if its value is a true value (not null, not empty). An entry that is
  printed without error has the key, and its age-bracket line is there exactly when
  the value is true; an entry, a dictionary, from which the key is absent raises
  \<open>KeyError\<close> and prints no age-bracket line; and when the formatter ends without
  error, each entry of the list \<open>lista_qsa\<close> was printed without error, its lines
  being among the lines of the formatter.
\<close>

theorem age_bracket_line:
  "(completes (print_socio socio) \<longrightarrow>
      (\<exists>v. getitem socio ''faixa_etaria_qsa_descricao'' = Inr v \<and>
           (\<forall>w. Fmt (''Faixa Et'' @ a_acute @ ''ria: '') w \<in> printed_by (print_socio socio)
                \<longleftrightarrow> w = v \<and> truthy v))) \<and>
   (map_of kvs ''faixa_etaria_qsa_descricao'' = None \<longrightarrow>
      (\<exists>k. snd (print_socio (PDict kvs)) = Some (KeyError k)) \<and>
      (\<forall>w. Fmt (''Faixa Et'' @ a_acute @ ''ria: '') w \<notin> printed_by (print_socio (PDict kvs)))) \<and>
   (getitem resultado ''lista_qsa'' = Inr (PList qs) \<and> completes (format_cnpj_info resultado) \<and>
    socio \<in> set qs \<longrightarrow>
      completes (print_socio socio) \<and>
      printed_by (print_socio socio) \<subseteq> printed_by (format_cnpj_info resultado))"
  using socio_age_bracket [of socio] socio_without_age_bracket [of kvs]
    ownership_entries [of resultado qs socio]
  by blast

theorem age_bracket_line_witness:
  "(\<exists>v. getitem (PDict (sample_socio_fields @ [(''faixa_etaria_qsa_descricao'', PStr ''31 a 40 anos'')]))
          ''faixa_etaria_qsa_descricao'' = Inr v \<and>
       (\<forall>w. Fmt (''Faixa Et'' @ a_acute @ ''ria: '') w \<in> printed_by (print_socio
               (PDict (sample_socio_fields @ [(''faixa_etaria_qsa_descricao'', PStr ''31 a 40 anos'')])))
            \<longleftrightarrow> w = v \<and> truthy v)) \<and>
   (\<exists>k. snd (print_socio (PDict sample_socio_fields)) = Some (KeyError k)) \<and>
   completes (print_socio (PDict (sample_socio_fields @ [(''faixa_etaria_qsa_descricao'', PNone)]))) \<and>
   printed_by (print_socio (PDict (sample_socio_fields @ [(''faixa_etaria_qsa_descricao'', PNone)])))
     \<subseteq> printed_by (format_cnpj_info (PDict (sample_fields @
        [(''ddd1'', PNone), (''ddd2'', PNone), (''ddd_fax'', PNone),
         (''lista_cnae_secundarios'', PList []),
         (''lista_qsa'', PList
            [PDict (sample_socio_fields @ [(''faixa_etaria_qsa_descricao'', PNone)])])])))"
proof -
  let ?aged = "PDict (sample_socio_fields @ [(''faixa_etaria_qsa_descricao'', PStr ''31 a 40 anos'')])"
  let ?null = "PDict (sample_socio_fields @ [(''faixa_etaria_qsa_descricao'', PNone)])"
  let ?r = "PDict (sample_fields @
        [(''ddd1'', PNone), (''ddd2'', PNone), (''ddd_fax'', PNone),
         (''lista_cnae_secundarios'', PList []), (''lista_qsa'', PList [?null])])"
  have a: "completes (print_socio ?aged)"
    by code_simp
  have b: "map_of sample_socio_fields ''faixa_etaria_qsa_descricao'' = None"
    by code_simp
  have c: "getitem ?r ''lista_qsa'' = Inr (PList [?null]) \<and> completes (format_cnpj_info ?r) \<and>
      ?null \<in> set [?null]"
    by code_simp
  from a b c
    age_bracket_line [where socio = ?aged and kvs = sample_socio_fields]
    age_bracket_line [where socio = ?null and resultado = ?r and qs = "[?null]"]
  show ?thesis
    by blast
qed

section \<open>The keys the formatter needs\<close>

lemma block_append_error: "\<not> completes (block xs) \<Longrightarrow> block (xs @ ys) = block xs"
  unfolding completes_def
  by (induction xs) (auto simp: block.simps split: prod.splits option.splits)

lemma block_key_error_only:
  "(\<forall>s\<in>set ss. key_error_only s) \<Longrightarrow> key_error_only (block ss)"
  unfolding key_error_only_def
  by (induction ss) (auto simp: block.simps split: prod.splits option.splits exn.splits)

lemma print_line_key_error_only: "key_error_only (print_line s)"
  by (simp add: key_error_only_def print_line_def)

lemma print_field_key_error_only: "key_error_only (print_field l (PDict kvs) k)"
  by (simp add: key_error_only_def print_field_def split: option.splits)

lemma if_both_key_error_only:
  "key_error_only body \<Longrightarrow> key_error_only (if_both (PDict kvs) k1 k2 body)"
  by (simp add: key_error_only_def if_both_def split: option.splits)

lemma head_key_error_only:
  "key_error_only (block [basic_info (PDict kvs), address (PDict kvs), contact (PDict kvs),
     main_activity (PDict kvs)])"
  by (intro block_key_error_only ballI)
    (auto simp: basic_info_def address_def contact_def main_activity_def
      intro!: block_key_error_only if_both_key_error_only print_field_key_error_only
        print_line_key_error_only)

lemma getitem_present: "(\<exists>v. getitem (PDict kvs) k = Inr v) \<longleftrightarrow> k \<in> dom (map_of kvs)"
  by (auto split: option.splits)

lemma head_completes_keys:
  assumes "completes (block [basic_info (PDict kvs), address (PDict kvs), contact (PDict kvs),
     main_activity (PDict kvs)])"
  shows "set (take 25 fixed_keys) \<subseteq> dom (map_of kvs)"
proof -
  from assms have b: "completes (basic_info (PDict kvs))" and a: "completes (address (PDict kvs))"
    and c: "completes (contact (PDict kvs))" and m: "completes (main_activity (PDict kvs))"
    by (simp_all add: completes_block)
  from b have 1: "set (take 11 fixed_keys) \<subseteq> dom (map_of kvs)"
    by (simp add: fixed_keys_def basic_info_def completes_block print_line_completes
        print_field_completes getitem_present del: getitem.simps)
  from a have 2: "set (take 8 (drop 11 fixed_keys)) \<subseteq> dom (map_of kvs)"
    by (simp add: fixed_keys_def address_def completes_block print_line_completes
        print_field_completes getitem_present del: getitem.simps)
  from c have 3: "set (take 4 (drop 19 fixed_keys)) \<subseteq> dom (map_of kvs)"
    by (auto simp add: fixed_keys_def contact_def completes_block print_line_completes
        print_field_completes if_both_completes getitem_PDict simp del: getitem.simps)
  from m have 4: "set (take 2 (drop 23 fixed_keys)) \<subseteq> dom (map_of kvs)"
    by (simp add: fixed_keys_def main_activity_def completes_block print_line_completes
        print_field_completes getitem_present del: getitem.simps)
  have "take 25 fixed_keys = take 11 fixed_keys @ take 8 (drop 11 fixed_keys) @
      take 4 (drop 19 fixed_keys) @ take 2 (drop 23 fixed_keys)"
    by (simp add: fixed_keys_def)
  with 1 2 3 4 show ?thesis
    by (simp only: set_append Un_subset_iff)
qed

lemma format_completes_keys:
  assumes "completes (format_cnpj_info (PDict kvs))"
  shows "set fixed_keys \<subseteq> dom (map_of kvs)"
proof -
  from assms have "completes (block [basic_info (PDict kvs), address (PDict kvs),
      contact (PDict kvs), main_activity (PDict kvs)])"
    and s: "completes (secondary_activities (PDict kvs))" and o: "completes (ownership (PDict kvs))"
    by (simp_all add: format_cnpj_info_def completes_block)
  from head_completes_keys [OF this(1)] have "set (take 25 fixed_keys) \<subseteq> dom (map_of kvs)" .
  moreover from s o have "''lista_cnae_secundarios'' \<in> dom (map_of kvs)"
    and "''lista_qsa'' \<in> dom (map_of kvs)"
    by (auto simp: secondary_activities_def ownership_def if_item_completes getitem_PDict
        simp del: getitem.simps)
  ultimately show ?thesis
    by (simp add: fixed_keys_def)
qed

lemma format_completes_numbers:
  assumes "completes (format_cnpj_info (PDict kvs))"
  shows "(\<forall>a. map_of kvs ''ddd1'' = Some a \<and> truthy a \<longrightarrow> ''telefone1'' \<in> dom (map_of kvs)) \<and>
         (\<forall>a. map_of kvs ''ddd2'' = Some a \<and> truthy a \<longrightarrow> ''telefone2'' \<in> dom (map_of kvs)) \<and>
         (\<forall>a. map_of kvs ''ddd_fax'' = Some a \<and> truthy a \<longrightarrow> ''fax'' \<in> dom (map_of kvs))"
proof -
  from assms have "completes (contact (PDict kvs))"
    by (simp add: format_cnpj_info_def completes_block)
  then show ?thesis
    by (auto simp: contact_def completes_block if_both_completes getitem_PDict
        simp del: getitem.simps)
qed

lemma format_absent_key:
  assumes "k \<in> set fixed_keys" and "k \<noteq> ''lista_qsa''" and "k \<notin> dom (map_of kvs)"
  shows "\<exists>k'. snd (format_cnpj_info (PDict kvs)) = Some (KeyError k')"
proof -
  let ?r = "PDict kvs"
  let ?head = "[basic_info ?r, address ?r, contact ?r, main_activity ?r]"
  have f: "format_cnpj_info ?r = block (?head @ [secondary_activities ?r, ownership ?r])"
    by (simp add: format_cnpj_info_def)
  show ?thesis
  proof (cases "completes (block ?head)")
    case False
    with head_key_error_only [of kvs] obtain k' where "snd (block ?head) = Some (KeyError k')"
      by (auto simp: key_error_only_def completes_def split: option.splits exn.splits)
    with False show ?thesis
      by (simp add: f block_append_error del: append.simps)
  next
    case True
    from assms(1) have "k \<in> set (take 25 fixed_keys) \<or> k = ''lista_cnae_secundarios'' \<or>
        k = ''lista_qsa''"
      by (simp add: fixed_keys_def)
    moreover from head_completes_keys [OF True] assms(3) have "k \<notin> set (take 25 fixed_keys)"
      by (rule contra_subsetD)
    ultimately have k: "k = ''lista_cnae_secundarios''"
      using assms(2) by simp
    with assms(3) have "secondary_activities ?r = ([], Some (KeyError ''lista_cnae_secundarios''))"
      by (simp add: secondary_activities_def if_item_def dom_def)
    moreover from True have "\<forall>s\<in>set ?head. completes s"
      by (simp only: completes_block)
    ultimately have "snd (format_cnpj_info ?r) = Some (KeyError ''lista_cnae_secundarios'')"
      by (simp add: format_cnpj_info_def block_ok) (simp add: block.simps)
    then show ?thesis
      by blast
  qed
qed

lemma map_of_without:
  "map_of (filter (\<lambda>kv. fst kv \<noteq> t) kvs) k = (if k = t then None else map_of kvs k)"
  by (induction kvs) auto

lemma contact_header_printed:
  assumes "completes (basic_info resultado)" and "completes (address resultado)"
  shows "Line ''\<newline>Contato:'' \<in> printed_by (format_cnpj_info resultado)"
proof -
  obtain post where "fst (contact resultado) = fst (print_line ''\<newline>Contato:'') @ post"
    unfolding contact_def using block_out_starts by blast
  moreover obtain post' where
    "fst (block [contact resultado, main_activity resultado, secondary_activities resultado,
       ownership resultado]) = fst (contact resultado) @ post'"
    using block_out_starts by blast
  ultimately show ?thesis
    using assms by (simp add: format_cnpj_info_def block_ok printed_by_def print_line_def)
qed

lemma email_printed:
  assumes "completes (basic_info resultado)" and "completes (address resultado)"
    and "completes (contact resultado)"
  shows "\<exists>v. Fmt ''Email: '' v \<in> printed_by (format_cnpj_info resultado)"
proof -
  from assms(3) obtain v where "getitem resultado ''email'' = Inr v"
    by (auto simp: contact_def completes_block print_field_completes)
  with assms(3) have "Fmt ''Email: '' v \<in> printed_by (contact resultado)"
    unfolding contact_def by (simp add: printed_by_block_completes print_field_out)
  moreover obtain post' where
    "fst (block [contact resultado, main_activity resultado, secondary_activities resultado,
       ownership resultado]) = fst (contact resultado) @ post'"
    using block_out_starts by blast
  ultimately have "Fmt ''Email: '' v \<in> printed_by (format_cnpj_info resultado)"
    using assms(1,2) by (simp add: format_cnpj_info_def block_ok printed_by_def)
  then show ?thesis ..
qed

lemma getitem_without:
  "k \<noteq> t \<Longrightarrow> getitem (PDict (filter (\<lambda>kv. fst kv \<noteq> t) kvs)) k = getitem (PDict kvs) k"
  by (simp add: map_of_without)

lemma sections_without_number:
  assumes "t = ''telefone1'' \<or> t = ''telefone2'' \<or> t = ''fax''"
  shows "basic_info (PDict (filter (\<lambda>kv. fst kv \<noteq> t) kvs)) = basic_info (PDict kvs) \<and>
         address (PDict (filter (\<lambda>kv. fst kv \<noteq> t) kvs)) = address (PDict kvs) \<and>
         main_activity (PDict (filter (\<lambda>kv. fst kv \<noteq> t) kvs)) = main_activity (PDict kvs) \<and>
         secondary_activities (PDict (filter (\<lambda>kv. fst kv \<noteq> t) kvs)) =
           secondary_activities (PDict kvs) \<and>
         ownership (PDict (filter (\<lambda>kv. fst kv \<noteq> t) kvs)) = ownership (PDict kvs)"
  using assms
  by (elim disjE)
    (simp_all add: basic_info_def address_def main_activity_def secondary_activities_def
      ownership_def print_field_def if_item_def for_item_def getitem_without
      del: getitem.simps)

lemma print_field_without:
  "k \<noteq> t \<Longrightarrow>
   print_field l (PDict (filter (\<lambda>kv. fst kv \<noteq> t) kvs)) k = print_field l (PDict kvs) k"
  by (simp add: print_field_def getitem_without del: getitem.simps)

lemma if_both_without:
  "k1 \<noteq> t \<Longrightarrow> k2 \<noteq> t \<Longrightarrow>
   if_both (PDict (filter (\<lambda>kv. fst kv \<noteq> t) kvs)) k1 k2 body = if_both (PDict kvs) k1 k2 body"
  by (simp add: if_both_def getitem_without del: getitem.simps cong: if_cong sum.case_cong)

lemma if_item_without:
  "k \<noteq> t \<Longrightarrow>
   if_item (PDict (filter (\<lambda>kv. fst kv \<noteq> t) kvs)) k body = if_item (PDict kvs) k body"
  by (simp add: if_item_def getitem_without del: getitem.simps)

lemma if_both_not_truthy:
  "\<forall>a. getitem obj d = Inr a \<longrightarrow> \<not> truthy a \<Longrightarrow> if_both obj d t body = if_item obj d ([], None)"
  by (cases "getitem obj d") (simp_all add: if_both_def if_item_def)

lemma contact_without_number:
  assumes pair: "(d, t) = (''ddd1'', ''telefone1'') \<or> (d, t) = (''ddd2'', ''telefone2'') \<or>
      (d, t) = (''ddd_fax'', ''fax'')"
    and falsy: "\<forall>a. map_of kvs d = Some a \<longrightarrow> \<not> truthy a"
  shows "contact (PDict (filter (\<lambda>kv. fst kv \<noteq> t) kvs)) = contact (PDict kvs)"
proof -
  from falsy have "\<forall>a. getitem (PDict kvs) d = Inr a \<longrightarrow> \<not> truthy a"
    by (simp add: getitem_PDict del: getitem.simps)
  with pair show ?thesis
    by (elim disjE)
      (simp_all add: contact_def if_both_not_truthy if_both_without if_item_without
        print_field_without getitem_without del: getitem.simps)
qed

lemma format_without_number:
  assumes "(d, t) = (''ddd1'', ''telefone1'') \<or> (d, t) = (''ddd2'', ''telefone2'') \<or>
      (d, t) = (''ddd_fax'', ''fax'')"
    and "\<forall>a. map_of kvs d = Some a \<longrightarrow> \<not> truthy a"
  shows "format_cnpj_info (PDict (filter (\<lambda>kv. fst kv \<noteq> t) kvs)) = format_cnpj_info (PDict kvs)"
proof -
  from assms(1) have "t = ''telefone1'' \<or> t = ''telefone2'' \<or> t = ''fax''"
    by auto
  from sections_without_number [OF this, of kvs] contact_without_number [OF assms]
  show ?thesis
    by (simp add: format_cnpj_info_def)
qed

text \<open>
  C10, as the claim states it, fails: a result with an empty \<open>ddd1\<close> and null \<open>ddd2\<close>
  and \<open>ddd_fax\<close>, from which the keys \<open>telefone1\<close>, \<open>telefone2\<close> and \<open>fax\<close> are absent,
  is formatted without any error.
\<close>

theorem absent_numbers_no_error:
  "map_of (sample_fields @
        [(''ddd1'', PStr []), (''ddd2'', PNone), (''ddd_fax'', PNone),
         (''lista_cnae_secundarios'', PList []), (''lista_qsa'', PList [])]) ''telefone1'' = None \<and>
   map_of (sample_fields @
        [(''ddd1'', PStr []), (''ddd2'', PNone), (''ddd_fax'', PNone),
         (''lista_cnae_secundarios'', PList []), (''lista_qsa'', PList [])]) ''telefone2'' = None \<and>
   map_of (sample_fields @
        [(''ddd1'', PStr []), (''ddd2'', PNone), (''ddd_fax'', PNone),
         (''lista_cnae_secundarios'', PList []), (''lista_qsa'', PList [])]) ''fax'' = None \<and>
   snd (format_cnpj_info (PDict (sample_fields @
        [(''ddd1'', PStr []), (''ddd2'', PNone), (''ddd_fax'', PNone),
         (''lista_cnae_secundarios'', PList []), (''lista_qsa'', PList [])]))) = None"
  by code_simp

text \<open>
  C10, amended. For a result that is a dictionary:
  \<^item> when \<open>format_cnpj_info\<close> ends without error, every key of \<open>fixed_keys\<close> is present
    (among them \<open>ddd1\<close>, \<open>ddd2\<close> and \<open>ddd_fax\<close>), the number key of a contact pair is
    present whenever the value of its area code is true, and every entry of the list
    \<open>lista_qsa\<close> has the key \<open>faixa_etaria_qsa_descricao\<close>;
  \<^item> when a key of \<open>fixed_keys\<close> is absent, the formatter raises, whatever would have
    been printed for it, and the exception is a \<open>KeyError\<close> for every key read before
    \<open>lista_qsa\<close>;
  \<^item> when the area code of a contact pair is absent or not a true value, the number key
    of the pair is not read: removing it from the result changes neither what is
    printed nor how the formatter ends;
  \<^item> the header of the contact section is printed as soon as the two sections before
    it are, and the Email line as soon as the contact section ends without error.
\<close>

theorem formatter_keys:
  "(completes (format_cnpj_info (PDict kvs)) \<longrightarrow>
      set fixed_keys \<subseteq> dom (map_of kvs) \<and>
      (\<forall>a. map_of kvs ''ddd1'' = Some a \<and> truthy a \<longrightarrow> ''telefone1'' \<in> dom (map_of kvs)) \<and>
      (\<forall>a. map_of kvs ''ddd2'' = Some a \<and> truthy a \<longrightarrow> ''telefone2'' \<in> dom (map_of kvs)) \<and>
      (\<forall>a. map_of kvs ''ddd_fax'' = Some a \<and> truthy a \<longrightarrow> ''fax'' \<in> dom (map_of kvs)) \<and>
      (\<forall>qs socio. map_of kvs ''lista_qsa'' = Some (PList qs) \<and> socio \<in> set qs \<longrightarrow>
         (\<exists>v. getitem socio ''faixa_etaria_qsa_descricao'' = Inr v))) \<and>
   (k \<in> set fixed_keys \<and> k \<notin> dom (map_of kvs) \<longrightarrow>
      \<not> completes (format_cnpj_info (PDict kvs)) \<and>
      (k \<noteq> ''lista_qsa'' \<longrightarrow> (\<exists>k'. snd (format_cnpj_info (PDict kvs)) = Some (KeyError k')))) \<and>
   (((d, t) = (''ddd1'', ''telefone1'') \<or> (d, t) = (''ddd2'', ''telefone2'') \<or>
     (d, t) = (''ddd_fax'', ''fax'')) \<and>
    (\<forall>a. map_of kvs d = Some a \<longrightarrow> \<not> truthy a) \<longrightarrow>
      format_cnpj_info (PDict (filter (\<lambda>kv. fst kv \<noteq> t) kvs)) = format_cnpj_info (PDict kvs)) \<and>
   (completes (basic_info (PDict kvs)) \<and> completes (address (PDict kvs)) \<longrightarrow>
      Line ''\<newline>Contato:'' \<in> printed_by (format_cnpj_info (PDict kvs))) \<and>
   (completes (basic_info (PDict kvs)) \<and> completes (address (PDict kvs)) \<and>
    completes (contact (PDict kvs)) \<longrightarrow>
      (\<exists>v. Fmt ''Email: '' v \<in> printed_by (format_cnpj_info (PDict kvs))))"
proof -
  have 1: "completes (format_cnpj_info (PDict kvs)) \<longrightarrow>
      set fixed_keys \<subseteq> dom (map_of kvs) \<and>
      (\<forall>a. map_of kvs ''ddd1'' = Some a \<and> truthy a \<longrightarrow> ''telefone1'' \<in> dom (map_of kvs)) \<and>
      (\<forall>a. map_of kvs ''ddd2'' = Some a \<and> truthy a \<longrightarrow> ''telefone2'' \<in> dom (map_of kvs)) \<and>
      (\<forall>a. map_of kvs ''ddd_fax'' = Some a \<and> truthy a \<longrightarrow> ''fax'' \<in> dom (map_of kvs)) \<and>
      (\<forall>qs socio. map_of kvs ''lista_qsa'' = Some (PList qs) \<and> socio \<in> set qs \<longrightarrow>
         (\<exists>v. getitem socio ''faixa_etaria_qsa_descricao'' = Inr v))"
  proof (intro impI conjI allI)
    assume c: "completes (format_cnpj_info (PDict kvs))"
    show "set fixed_keys \<subseteq> dom (map_of kvs)"
      using c by (rule format_completes_keys)
    fix a
    show "map_of kvs ''ddd1'' = Some a \<and> truthy a \<Longrightarrow> ''telefone1'' \<in> dom (map_of kvs)"
      using format_completes_numbers [OF c] by simp
    show "map_of kvs ''ddd2'' = Some a \<and> truthy a \<Longrightarrow> ''telefone2'' \<in> dom (map_of kvs)"
      using format_completes_numbers [OF c] by simp
    show "map_of kvs ''ddd_fax'' = Some a \<and> truthy a \<Longrightarrow> ''fax'' \<in> dom (map_of kvs)"
      using format_completes_numbers [OF c] by simp
  next
    fix qs socio
    assume c: "completes (format_cnpj_info (PDict kvs))"
      and q: "map_of kvs ''lista_qsa'' = Some (PList qs) \<and> socio \<in> set qs"
    from q have "getitem (PDict kvs) ''lista_qsa'' = Inr (PList qs)" and s: "socio \<in> set qs"
      by simp_all
    from ownership_entries [OF this(1) c s] have "completes (print_socio socio)"
      by (rule conjunct1)
    from socio_age_bracket [OF this]
    show "\<exists>v. getitem socio ''faixa_etaria_qsa_descricao'' = Inr v"
      by (elim exE conjE) (rule exI)
  qed
  have 2: "k \<in> set fixed_keys \<and> k \<notin> dom (map_of kvs) \<longrightarrow>
      \<not> completes (format_cnpj_info (PDict kvs)) \<and>
      (k \<noteq> ''lista_qsa'' \<longrightarrow> (\<exists>k'. snd (format_cnpj_info (PDict kvs)) = Some (KeyError k')))"
  proof (intro impI conjI)
    assume k: "k \<in> set fixed_keys \<and> k \<notin> dom (map_of kvs)"
    show "\<not> completes (format_cnpj_info (PDict kvs))"
    proof
      assume "completes (format_cnpj_info (PDict kvs))"
      from format_completes_keys [OF this] k show False
        by (elim conjE) (erule notE, erule subsetD)
    qed
    assume "k \<noteq> ''lista_qsa''"
    with k show "\<exists>k'. snd (format_cnpj_info (PDict kvs)) = Some (KeyError k')"
      by (elim conjE) (rule format_absent_key)
  qed
  have 3: "((d, t) = (''ddd1'', ''telefone1'') \<or> (d, t) = (''ddd2'', ''telefone2'') \<or>
     (d, t) = (''ddd_fax'', ''fax'')) \<and>
    (\<forall>a. map_of kvs d = Some a \<longrightarrow> \<not> truthy a) \<longrightarrow>
      format_cnpj_info (PDict (filter (\<lambda>kv. fst kv \<noteq> t) kvs)) = format_cnpj_info (PDict kvs)"
    by (intro impI, elim conjE) (rule format_without_number)
  have 4: "completes (basic_info (PDict kvs)) \<and> completes (address (PDict kvs)) \<longrightarrow>
      Line ''\<newline>Contato:'' \<in> printed_by (format_cnpj_info (PDict kvs))"
    by (intro impI, elim conjE) (rule contact_header_printed)
  have 5: "completes (basic_info (PDict kvs)) \<and> completes (address (PDict kvs)) \<and>
    completes (contact (PDict kvs)) \<longrightarrow>
      (\<exists>v. Fmt ''Email: '' v \<in> printed_by (format_cnpj_info (PDict kvs)))"
    by (intro impI, elim conjE) (rule email_printed)
  from 1 2 3 4 5 show ?thesis
    by (intro conjI)
qed

theorem formatter_keys_witness:
  "set fixed_keys \<subseteq> dom (map_of (sample_fields @
        [(''ddd1'', PStr ''11''), (''telefone1'', PStr ''33334444''), (''ddd2'', PNone),
         (''ddd_fax'', PNone), (''lista_cnae_secundarios'', PList []), (''lista_qsa'', PList [])])) \<and>
   ''telefone1'' \<in> dom (map_of (sample_fields @
        [(''ddd1'', PStr ''11''), (''telefone1'', PStr ''33334444''), (''ddd2'', PNone),
         (''ddd_fax'', PNone), (''lista_cnae_secundarios'', PList []), (''lista_qsa'', PList [])])) \<and>
   Line ''\<newline>Contato:'' \<in> printed_by (format_cnpj_info (PDict (sample_fields @
        [(''ddd1'', PStr ''11''), (''telefone1'', PStr ''33334444''), (''ddd2'', PNone),
         (''ddd_fax'', PNone), (''lista_cnae_secundarios'', PList []), (''lista_qsa'', PList [])]))) \<and>
   (\<exists>v. Fmt ''Email: '' v \<in> printed_by (format_cnpj_info (PDict (sample_fields @
        [(''ddd1'', PStr ''11''), (''telefone1'', PStr ''33334444''), (''ddd2'', PNone),
         (''ddd_fax'', PNone), (''lista_cnae_secundarios'', PList []), (''lista_qsa'', PList [])])))) \<and>
   (\<exists>k'. snd (format_cnpj_info (PDict sample_fields)) = Some (KeyError k')) \<and>
   format_cnpj_info (PDict (filter (\<lambda>kv. fst kv \<noteq> ''telefone1'') (sample_fields @
        [(''ddd1'', PStr []), (''telefone1'', PStr ''33334444''), (''ddd2'', PNone),
         (''ddd_fax'', PNone), (''lista_cnae_secundarios'', PList []), (''lista_qsa'', PList [])])))
     = format_cnpj_info (PDict (sample_fields @
        [(''ddd1'', PStr []), (''telefone1'', PStr ''33334444''), (''ddd2'', PNone),
         (''ddd_fax'', PNone), (''lista_cnae_secundarios'', PList []), (''lista_qsa'', PList [])]))"
proof -
  let ?full = "sample_fields @
        [(''ddd1'', PStr ''11''), (''telefone1'', PStr ''33334444''), (''ddd2'', PNone),
         (''ddd_fax'', PNone), (''lista_cnae_secundarios'', PList []), (''lista_qsa'', PList [])]"
  let ?unused = "sample_fields @
        [(''ddd1'', PStr []), (''telefone1'', PStr ''33334444''), (''ddd2'', PNone),
         (''ddd_fax'', PNone), (''lista_cnae_secundarios'', PList []), (''lista_qsa'', PList [])]"
  have a1: "completes (format_cnpj_info (PDict ?full))"
    and a2: "map_of ?full ''ddd1'' = Some (PStr ''11'')" and a3: "truthy (PStr ''11'')"
    and a4: "completes (basic_info (PDict ?full))" and a5: "completes (address (PDict ?full))"
    and a6: "completes (contact (PDict ?full))"
    by code_simp+
  have "''ddd1'' \<in> set fixed_keys \<and> map_of sample_fields ''ddd1'' = None \<and> ''ddd1'' \<noteq> ''lista_qsa''"
    by code_simp
  then have b: "''ddd1'' \<in> set fixed_keys \<and> ''ddd1'' \<notin> dom (map_of sample_fields)"
    and b': "''ddd1'' \<noteq> ''lista_qsa''"
    by (simp_all add: domIff)
  have "map_of ?unused ''ddd1'' = Some (PStr [])"
    by code_simp
  then have c: "((''ddd1'', ''telefone1'') = (''ddd1'', ''telefone1'') \<or>
      (''ddd1'', ''telefone1'') = (''ddd2'', ''telefone2'') \<or>
      (''ddd1'', ''telefone1'') = (''ddd_fax'', ''fax'')) \<and>
      (\<forall>a. map_of ?unused ''ddd1'' = Some a \<longrightarrow> \<not> truthy a)"
    by simp
  note present = formatter_keys [where kvs = ?full, THEN conjunct1, THEN mp, OF a1]
  note r1 = present [THEN conjunct1]
  note r2 = present [THEN conjunct2, THEN conjunct1, THEN spec, THEN mp, OF conjI [OF a2 a3]]
  note r3 = formatter_keys [where kvs = ?full, THEN conjunct2, THEN conjunct2, THEN conjunct2,
      THEN conjunct1, THEN mp, OF conjI [OF a4 a5]]
  note r4 = formatter_keys [where kvs = ?full, THEN conjunct2, THEN conjunct2, THEN conjunct2,
      THEN conjunct2, THEN mp, OF conjI [OF a4 conjI [OF a5 a6]]]
  note r5 = formatter_keys [where kvs = sample_fields and k = "''ddd1''", THEN conjunct2,
      THEN conjunct1, THEN mp, OF b, THEN conjunct2, THEN mp, OF b']
  note r6 = formatter_keys [where kvs = ?unused and d = "''ddd1''" and t = "''telefone1''",
      THEN conjunct2, THEN conjunct2, THEN conjunct1, THEN mp, OF c]
  from r1 r2 r3 r4 r5 r6 show ?thesis
    by (intro conjI)
qed

end
